theory Spec2Isabelle
  imports Main "HOL-Library.Word"
begin

section \<open>Go values\<close>

text \<open>
  A Go \<^verbatim>\<open>byte\<close> is an 8-bit word. A slice is either \<^verbatim>\<open>nil\<close> or holds a
  sequence of elements; the two are kept apart because \<^verbatim>\<open>json.Marshal\<close> hands back
  a nil slice when it fails. A Go string is a sequence of bytes, here an Isabelle
  \<open>string\<close>. A non-nil \<^verbatim>\<open>error\<close> is identified by its message; \<^verbatim>\<open>nil\<close> is
  \<open>None\<close>.
\<close>

type_synonym byte = "8 word"

datatype 'a slice = NilSlice | Slice "'a list"

fun elems :: "'a slice \<Rightarrow> 'a list" where
  "elems NilSlice = []"
| "elems (Slice xs) = xs"

datatype error = Error string

fun Error_msg :: "error \<Rightarrow> string" where
  "Error_msg (Error m) = m"

text \<open>The conversion \<^verbatim>\<open>[]byte(v)\<close> of a string: its bytes, in a fresh non-nil slice.\<close>

definition bytes_of_string :: "string \<Rightarrow> byte slice" where
  "bytes_of_string v = Slice (map of_char v)"

text \<open>
  A value of type \<^verbatim>\<open>interface{}\<close>, split the way the type switch of
  \<^verbatim>\<open>Publish\<close> looks at it: a \<^verbatim>\<open>[]byte\<close>, a \<^verbatim>\<open>string\<close>, or a value of any
  other dynamic type (the untyped \<^verbatim>\<open>nil\<close> included).
\<close>

datatype 'v iface = IBytes "byte slice" | IString string | IOther 'v

text \<open>
  Pointers into the external client library, function values and contexts are opaque:
  only their identity matters. A nil pointer, function or interface is \<open>None\<close>.
\<close>

type_synonym nats_Conn = nat
datatype MsgHandler = MsgHandler nat
datatype HTTPHandlerFunc = HTTPHandlerFunc nat
datatype Context = Context nat
datatype nats_Option = nats_Option nat
datatype nats_Msg = nats_Msg string "byte slice"
datatype Subscription = Subscription nat

text \<open>\<^verbatim>\<open>time.Duration\<close> is an \<^verbatim>\<open>int64\<close> count of nanoseconds.\<close>

type_synonym Duration = "64 word"

definition Millisecond :: Duration where
  "Millisecond = 1000000"

definition Second :: Duration where
  "Second = 1000000000"

section \<open>The option structures and their builders\<close>

record SubOptions =
  o_Queue :: string
  o_Handler :: "MsgHandler option"

record ReqOptions =
  o_Timeout :: Duration
  o_Context :: "Context option"

text \<open>
  A functional option takes a pointer to the structure, may write to it, and returns an
  error or nil. It is a closure, so it may also read and write the variables of the
  caller that it captured. Here it is a function of the structure and of those
  variables (a state \<open>'c\<close> of the caller's own), giving the error, the structure as the
  option left it, and the variables as the option left them.
\<close>

text \<open>
  The fields carry the prefix \<open>o_\<close>, since \<^verbatim>\<open>Queue\<close> and \<^verbatim>\<open>Handler\<close> (and
  \<^verbatim>\<open>Timeout\<close>) name both a field and the builder that sets it.
\<close>

type_synonym 'c SubOption = "SubOptions \<Rightarrow> 'c \<Rightarrow> (error option \<times> SubOptions) \<times> 'c"
type_synonym 'c ReqOption = "ReqOptions \<Rightarrow> 'c \<Rightarrow> (error option \<times> ReqOptions) \<times> 'c"

text \<open>The closures the four builders return capture their argument and nothing else.\<close>

definition Queue :: "string \<Rightarrow> 'c SubOption" where
  "Queue name = (\<lambda>o' c. ((None, o'\<lparr>o_Queue := name\<rparr>), c))"

definition Handler :: "MsgHandler option \<Rightarrow> 'c SubOption" where
  "Handler mcb = (\<lambda>o' c. ((None, o'\<lparr>o_Handler := mcb\<rparr>), c))"

definition Timeout :: "Duration \<Rightarrow> 'c ReqOption" where
  "Timeout timeout = (\<lambda>o' c. ((None, o'\<lparr>o_Timeout := timeout\<rparr>), c))"

definition Ctx :: "Context option \<Rightarrow> 'c ReqOption" where
  "Ctx ctx = (\<lambda>o' c. ((None, o'\<lparr>o_Context := ctx\<rparr>), c))"

text \<open>
  An option written by a caller that captures nothing: it reads and writes the structure
  only.
\<close>

definition pure_option ::
  "('o \<Rightarrow> error option \<times> 'o) \<Rightarrow> 'o \<Rightarrow> 'c \<Rightarrow> (error option \<times> 'o) \<times> 'c" where
  "pure_option f = (\<lambda>o' c. (f o', c))"

text \<open>The zero values \<^verbatim>\<open>&SubOptions{}\<close> and \<^verbatim>\<open>&ReqOptions{}\<close>.\<close>

definition zero_SubOptions :: SubOptions where
  "zero_SubOptions = \<lparr>o_Queue = [], o_Handler = None\<rparr>"

definition zero_ReqOptions :: ReqOptions where
  "zero_ReqOptions = \<lparr>o_Timeout = 0, o_Context = None\<rparr>"

text \<open>
  The loop \<^verbatim>\<open>for _, opt := range opts { if err := opt(o); err != nil { return nil, err } }\<close>
  of \<^verbatim>\<open>Request\<close> and \<^verbatim>\<open>Subscribe\<close>: \<open>Inl\<close> the error of the first option that
  fails, \<open>Inr\<close> the structure once every option has run; with it, the caller's variables
  as the last option that was called left them. An option is called only when every
  option before it has returned nil.
\<close>

fun range_opts ::
  "('o \<Rightarrow> 'c \<Rightarrow> (error option \<times> 'o) \<times> 'c) list \<Rightarrow> 'o \<Rightarrow> 'c \<Rightarrow> (error + 'o) \<times> 'c" where
  "range_opts [] o' c = (Inr o', c)"
| "range_opts (opt # opts) o' c =
     (case opt o' c of
        ((Some err, _), c') \<Rightarrow> (Inl err, c')
      | ((None, o''), c') \<Rightarrow> range_opts opts o'' c')"

section \<open>The external collaborators\<close>

text \<open>
  What the program calls and does not define: the NATS client library, and the
  formatting and encoding functions of the standard library. Each is a parameter. The
  client library acts on a state \<open>'x\<close> of its own (its sockets and buffers); its methods
  are called on a possibly nil \<^verbatim>\<open>*nats.Conn\<close>.
\<close>

record ('v, 'x) extern =
  nats_Connect :: "string \<Rightarrow> nats_Option list \<Rightarrow> 'x \<Rightarrow> (nats_Conn option \<times> error option) \<times> 'x"
  nats_Publish :: "nats_Conn option \<Rightarrow> string \<Rightarrow> byte slice \<Rightarrow> 'x \<Rightarrow> error option \<times> 'x"
  nats_Close :: "nats_Conn option \<Rightarrow> 'x \<Rightarrow> 'x"
  Sprintf_v :: "'v \<Rightarrow> string"
  Sprintf_SubOptions :: "SubOptions \<Rightarrow> string"
  Sprintf_ReqOptions :: "ReqOptions \<Rightarrow> string"
  json_encode :: "'v iface \<Rightarrow> error + byte list"
  gzip_compress :: "byte list \<Rightarrow> byte list"
  base64_encode :: "byte list \<Rightarrow> byte list"
  context_WithTimeout :: "Duration \<Rightarrow> 'x \<Rightarrow> Context option \<times> 'x"
  context_cancel :: "Context option \<Rightarrow> 'x \<Rightarrow> 'x"

text \<open>Every call that reaches the client library is recorded, in order.\<close>

datatype ext_call =
    Call_Connect string "nats_Option list"
  | Call_Publish "nats_Conn option" string "byte slice"
  | Call_Close "nats_Conn option"

section \<open>The connection and the program state\<close>

record conn =
  nc :: "nats_Conn option"

datatype halt = Exit int | Panic

text \<open>
  The state a method runs in: the structure its receiver \<^verbatim>\<open>c *conn\<close> points to, the
  state of the client library, the variables of the caller that its option closures
  captured, the calls made to the client library so far, what was printed on standard
  output, what was handed to the logger, and whether the process has stopped.
\<close>

record ('x, 'c) state =
  self :: conn
  ext :: 'x
  caller :: 'c
  calls :: "ext_call list"
  stdout :: "string list"
  logged :: "string list"
  halted :: "halt option"

definition Printf :: "string \<Rightarrow> ('x, 'c) state \<Rightarrow> ('x, 'c) state" where
  "Printf line s = s\<lparr>stdout := stdout s @ [line]\<rparr>"

section \<open>The methods of the connection\<close>

definition Handle :: "string \<Rightarrow> HTTPHandlerFunc option \<Rightarrow> ('x, 'c) state \<Rightarrow> error option \<times> ('x, 'c) state" where
  "Handle subject handler s = (None, s)"

definition Request ::
  "('v, 'x) extern \<Rightarrow> string \<Rightarrow> 'v iface \<Rightarrow> 'c ReqOption list \<Rightarrow> ('x, 'c) state
     \<Rightarrow> (nats_Msg option \<times> error option) \<times> ('x, 'c) state" where
  "Request L subject msg opts s =
     (case range_opts opts zero_ReqOptions (caller s) of
        (Inl err, c) \<Rightarrow> ((None, Some err), s\<lparr>caller := c\<rparr>)
      | (Inr ropts, c) \<Rightarrow>
          ((None, None),
           Printf (''opts are '' @ Sprintf_ReqOptions L ropts @ ''\<newline>'') (s\<lparr>caller := c\<rparr>)))"

definition Subscribe ::
  "('v, 'x) extern \<Rightarrow> string \<Rightarrow> 'c SubOption list \<Rightarrow> ('x, 'c) state
     \<Rightarrow> (Subscription option \<times> error option) \<times> ('x, 'c) state" where
  "Subscribe L subject opts s =
     (case range_opts opts zero_SubOptions (caller s) of
        (Inl err, c) \<Rightarrow> ((None, Some err), s\<lparr>caller := c\<rparr>)
      | (Inr sopts, c) \<Rightarrow>
          ((None, None),
           Printf (''opts are '' @ Sprintf_SubOptions L sopts @ ''\<newline>'') (s\<lparr>caller := c\<rparr>)))"

text \<open>
  In both, the options structure is a local variable: it is printed when every option
  has succeeded and dropped otherwise. What remains of the options after the call is
  what they did to the variables they captured.
\<close>

text \<open>The type switch of \<^verbatim>\<open>Publish\<close>, which computes \<^verbatim>\<open>data\<close>.\<close>

fun Publish_data :: "('v, 'x) extern \<Rightarrow> 'v iface \<Rightarrow> byte slice" where
  "Publish_data L (IBytes v) = v"
| "Publish_data L (IString v) = bytes_of_string v"
| "Publish_data L (IOther v) = bytes_of_string (Sprintf_v L v)"

definition Publish ::
  "('v, 'x) extern \<Rightarrow> string \<Rightarrow> 'v iface \<Rightarrow> ('x, 'c) state \<Rightarrow> error option \<times> ('x, 'c) state" where
  "Publish L subject msg s =
     (let data = Publish_data L msg;
          (err, x) = nats_Publish L (nc (self s)) subject data (ext s)
      in (err, s\<lparr>ext := x, calls := calls s @ [Call_Publish (nc (self s)) subject data]\<rparr>))"

definition Close :: "('v, 'x) extern \<Rightarrow> ('x, 'c) state \<Rightarrow> ('x, 'c) state" where
  "Close L s =
     (if nc (self s) \<noteq> None
      then s\<lparr>ext := nats_Close L (nc (self s)) (ext s),
             calls := calls s @ [Call_Close (nc (self s))],
             self := (self s)\<lparr>nc := None\<rparr>\<rparr>
      else s)"

text \<open>
  \<^verbatim>\<open>Connect\<close> returns the \<^verbatim>\<open>Connection\<close> interface: nil, or a pointer to a new
  \<^verbatim>\<open>conn\<close>, here the structure itself.
\<close>

definition Connect ::
  "('v, 'x) extern \<Rightarrow> string \<Rightarrow> nats_Option list \<Rightarrow> ('x, 'c) state
     \<Rightarrow> (conn option \<times> error option) \<times> ('x, 'c) state" where
  "Connect L url opts s =
     (let ((nc', err), x) = nats_Connect L url opts (ext s);
          s' = s\<lparr>ext := x, calls := calls s @ [Call_Connect url opts]\<rparr>
      in (case err of
            Some e \<Rightarrow> ((None, Some e), s')
          | None \<Rightarrow> ((Some \<lparr>nc = nc'\<rparr>, None), Printf ''AAA\<newline>\<newline>'' s')))"

section \<open>The encoding helpers\<close>

text \<open>
  \<^verbatim>\<open>json.Marshal\<close> returns the encoding and a nil error, or a nil slice and the
  error.
\<close>

definition json_Marshal :: "('v, 'x) extern \<Rightarrow> 'v iface \<Rightarrow> byte slice \<times> error option" where
  "json_Marshal L v =
     (case json_encode L v of
        Inl err \<Rightarrow> (NilSlice, Some err)
      | Inr buf \<Rightarrow> (Slice buf, None))"

definition JSON :: "('v, 'x) extern \<Rightarrow> 'v iface \<Rightarrow> byte slice" where
  "JSON L v = (let (b, _) = json_Marshal L v in b)"

definition Gzip :: "('v, 'x) extern \<Rightarrow> byte slice \<Rightarrow> byte slice" where
  "Gzip L in' = Slice (gzip_compress L (elems in'))"

definition Base64 :: "('v, 'x) extern \<Rightarrow> byte slice \<Rightarrow> byte slice" where
  "Base64 L in' = Slice (base64_encode L (elems in'))"

section \<open>The program\<close>

text \<open>
  \<^verbatim>\<open>log.Fatalf\<close> hands the formatted line to the logger and calls
  \<^verbatim>\<open>os.Exit(1)\<close>.
\<close>

definition log_Fatalf :: "string \<Rightarrow> ('x, 'c) state \<Rightarrow> ('x, 'c) state" where
  "log_Fatalf line s = s\<lparr>logged := logged s @ [line], halted := Some (Exit 1)\<rparr>"

text \<open>
  Go values that are neither byte slices nor strings: the two kinds \<^verbatim>\<open>main\<close>
  publishes (an \<^verbatim>\<open>int\<close> and a pointer to a \<^verbatim>\<open>person\<close>), and a channel, as a value
  that JSON cannot encode.
\<close>

record person =
  Name :: string
  Address :: string
  Age :: "64 word"

datatype go_value = Go_int "64 word" | Go_person_ptr person | Go_chan nat

definition main_MsgHandler :: MsgHandler where
  "main_MsgHandler = MsgHandler 0"

definition main_HTTPHandlerFunc :: HTTPHandlerFunc where
  "main_HTTPHandlerFunc = HTTPHandlerFunc 0"

text \<open>
  \<^verbatim>\<open>main\<close> after a successful connect, with \<open>self\<close> the connection \<^verbatim>\<open>nc\<close>. Every
  result is discarded, as in the source; the deferred \<^verbatim>\<open>cancelCB\<close> runs last.
\<close>

definition main_body :: "(go_value, 'x) extern \<Rightarrow> ('x, 'c) state \<Rightarrow> ('x, 'c) state" where
  "main_body L s0 =
     (let tsubj = ''natsv2.foo'';
          s = snd (Publish L tsubj (IString ''Hello World!'') s0);
          s = snd (Publish L tsubj (IOther (Go_int 22)) s);
          me = \<lparr>Name = ''derek'', Address = ''Los Angeles, CA'', Age = 22\<rparr>;
          s = snd (Publish L tsubj (IOther (Go_person_ptr me)) s);
          s = snd (Publish L tsubj (IBytes (JSON L (IOther (Go_person_ptr me)))) s);
          s = snd (Publish L tsubj
                 (IBytes (Base64 L (Gzip L (JSON L (IOther (Go_person_ptr me)))))) s);
          s = snd (Subscribe L ''foo'' [] s);
          s = snd (Subscribe L ''foo'' [Queue ''bar''] s);
          s = snd (Subscribe L ''foo'' [Handler (Some main_MsgHandler)] s);
          s = snd (Request L ''service'' (IString ''2+2'') [] s);
          s = snd (Request L ''service'' (IString ''2+2'') [Timeout (2 * Second)] s);
          (ctx, x) = context_WithTimeout L (100 * Millisecond) (ext s);
          s = s\<lparr>ext := x\<rparr>;
          s = snd (Request L ''service'' (IString ''2+2'') [Ctx ctx] s);
          s = snd (Handle ''foo'' (Some main_HTTPHandlerFunc) s);
          s = Close L s
      in s\<lparr>ext := context_cancel L ctx (ext s)\<rparr>)"

text \<open>
  \<^verbatim>\<open>main\<close> of \<^verbatim>\<open>main.go\<close>. A nil \<^verbatim>\<open>Connection\<close> with a nil error would make
  the first method call panic. (The repository's second source file repeats the
  declarations above and surrounds them with sketches of a future interface, which call
  methods that are declared nowhere; it does not compile and is not modelled.)
\<close>

definition main :: "(go_value, 'x) extern \<Rightarrow> ('x, 'c) state \<Rightarrow> ('x, 'c) state" where
  "main L s =
     (case Connect L ''demo.nats.io'' [] s of
        ((_, Some err), s') \<Rightarrow>
          log_Fatalf (''Could not connect: '' @ Error_msg err @ ''\<newline>'') s'
      | ((None, None), s') \<Rightarrow> s'\<lparr>halted := Some Panic\<rparr>
      | ((Some c, None), s') \<Rightarrow> main_body L (s'\<lparr>self := c\<rparr>))"

section \<open>A test double for the external collaborators\<close>

text \<open>
  A client library whose state is the number of messages it has accepted; \<open>up\<close> says
  whether the server can be reached. The formatting and the encoders are stand-ins that
  do not try to reproduce the standard library. It gives the theorems below concrete
  inputs to run on.
\<close>

function decimal :: "int \<Rightarrow> string" where
  "decimal n =
     (if n < 10 then [char_of (48 + n)]
      else decimal (n div 10) @ [char_of (48 + n mod 10)])"
  by pat_completeness auto
termination
  by (relation "measure nat") auto

declare decimal.simps [simp del]

fun fake_Sprintf_v :: "go_value \<Rightarrow> string" where
  "fake_Sprintf_v (Go_int n) = decimal (uint n)"
| "fake_Sprintf_v (Go_person_ptr p) =
     ''&{Name:'' @ Name p @ '' Address:'' @ Address p @ '' Age:'' @ decimal (uint (Age p)) @ ''}''"
| "fake_Sprintf_v (Go_chan a) = ''0x'' @ decimal (int a)"

fun fake_json_encode :: "go_value iface \<Rightarrow> error + byte list" where
  "fake_json_encode (IBytes b) = Inr (34 # elems b @ [34])"
| "fake_json_encode (IString v) = Inr (map of_char (''\"'' @ v @ ''\"''))"
| "fake_json_encode (IOther (Go_chan a)) = Inl (Error ''json: unsupported type: chan int'')"
| "fake_json_encode (IOther v) = Inr (map of_char (fake_Sprintf_v v))"

definition fake :: "bool \<Rightarrow> (go_value, nat) extern" where
  "fake up =
     \<lparr>nats_Connect = (\<lambda>url opts x.
        if up then ((Some 1, None), x)
        else ((None, Some (Error ''nats: no servers available for connection'')), x)),
      nats_Publish = (\<lambda>p subject data x.
        if p = None then (Some (Error ''nats: invalid connection''), x) else (None, Suc x)),
      nats_Close = (\<lambda>p x. x),
      Sprintf_v = fake_Sprintf_v,
      Sprintf_SubOptions = (\<lambda>o'. ''&{Queue:'' @ o_Queue o' @ ''}''),
      Sprintf_ReqOptions = (\<lambda>o'. ''&{Timeout:'' @ decimal (uint (o_Timeout o')) @ ''}''),
      json_encode = fake_json_encode,
      gzip_compress = (\<lambda>b. b),
      base64_encode = (\<lambda>b. b),
      context_WithTimeout = (\<lambda>d x. (Some (Context 1), x)),
      context_cancel = (\<lambda>ctx x. x)\<rparr>"

text \<open>
  The caller of the test double keeps one counter. \<open>count_call\<close> is an option that
  succeeds and adds one to it, as a closure \<^verbatim>\<open>func(o) error { n++; return nil }\<close>
  would; \<open>set_and_fail\<close> writes the structure, adds ten to the counter and fails.
\<close>

definition count_call :: "'o \<Rightarrow> nat \<Rightarrow> (error option \<times> 'o) \<times> nat" where
  "count_call = (\<lambda>o' n. ((None, o'), Suc n))"

definition set_and_fail :: "string \<Rightarrow> ('o \<Rightarrow> 'o) \<Rightarrow> 'o \<Rightarrow> nat \<Rightarrow> (error option \<times> 'o) \<times> nat" where
  "set_and_fail m f = (\<lambda>o' n. ((Some (Error m), f o'), n + 10))"

definition init :: "(nat, nat) state" where
  "init = \<lparr>self = \<lparr>nc = None\<rparr>, ext = 0, caller = 0, calls = [], stdout = [], logged = [],
            halted = None\<rparr>"

section \<open>Sequences of calls\<close>

text \<open>
  A caller holding a connection may call its methods in any order. \<open>call\<close> runs one of
  the four methods other than \<^verbatim>\<open>Close\<close> and discards what it returns.
\<close>

datatype ('v, 'c) op =
    Op_Publish string "'v iface"
  | Op_Subscribe string "'c SubOption list"
  | Op_Request string "'v iface" "'c ReqOption list"
  | Op_Handle string "HTTPHandlerFunc option"

fun call :: "('v, 'x) extern \<Rightarrow> ('v, 'c) op \<Rightarrow> ('x, 'c) state \<Rightarrow> ('x, 'c) state" where
  "call L (Op_Publish subject msg) s = snd (Publish L subject msg s)"
| "call L (Op_Subscribe subject opts) s = snd (Subscribe L subject opts s)"
| "call L (Op_Request subject msg opts) s = snd (Request L subject msg opts s)"
| "call L (Op_Handle subject handler) s = snd (Handle subject handler s)"

section \<open>Auxiliary facts\<close>

subsection \<open>The option loop\<close>

lemma range_opts_append:
  "range_opts (opts1 @ opts2) o' c =
     (case range_opts opts1 o' c of
        (Inl err, c') \<Rightarrow> (Inl err, c')
      | (Inr o'', c') \<Rightarrow> range_opts opts2 o'' c')"
  by (induction opts1 arbitrary: o' c) (auto split: prod.splits option.splits)

lemma range_opts_fails:
  "range_opts pre o' c = (Inr o1, c1) \<Longrightarrow> opt o1 c1 = ((Some err, o2), c2) \<Longrightarrow>
   range_opts (pre @ opt # post) o' c = (Inl err, c2)"
  by (simp add: range_opts_append)

lemma range_opts_pure_caller:
  "snd (range_opts (map pure_option ps) o' c) = c"
  by (induction ps arbitrary: o') (auto simp: pure_option_def split: prod.splits option.splits)

lemma range_opts_pure_fst:
  "fst (range_opts (map pure_option ps) o' c) = fst (range_opts (map pure_option ps) o' c')"
  by (induction ps arbitrary: o') (auto simp: pure_option_def split: prod.splits option.splits)

lemma range_opts_pure_fails:
  assumes "fst (range_opts (map pure_option ps) o' c) = Inr o1" and "p o1 = (Some err, o2)"
  shows "range_opts (map pure_option ps @ pure_option p # post) o' c = (Inl err, c)"
proof -
  from assms(1) have "range_opts (map pure_option ps) o' c = (Inr o1, c)"
    using range_opts_pure_caller [of ps o' c] by (cases "range_opts (map pure_option ps) o' c") simp
  moreover from assms(2) have "pure_option p o1 c = ((Some err, o2), c)"
    by (simp add: pure_option_def)
  ultimately show ?thesis by (rule range_opts_fails)
qed

lemma Queue_twice:
  "range_opts (pre @ [Queue a, Queue b] @ post) o' c = range_opts (pre @ [Queue b] @ post) o' c"
  by (simp add: range_opts_append Queue_def split: prod.splits sum.splits)

lemma Handler_twice:
  "range_opts (pre @ [Handler a, Handler b] @ post) o' c =
   range_opts (pre @ [Handler b] @ post) o' c"
  by (simp add: range_opts_append Handler_def split: prod.splits sum.splits)

lemma Timeout_twice:
  "range_opts (pre @ [Timeout a, Timeout b] @ post) o' c =
   range_opts (pre @ [Timeout b] @ post) o' c"
  by (simp add: range_opts_append Timeout_def split: prod.splits sum.splits)

lemma Ctx_twice:
  "range_opts (pre @ [Ctx a, Ctx b] @ post) o' c = range_opts (pre @ [Ctx b] @ post) o' c"
  by (simp add: range_opts_append Ctx_def split: prod.splits sum.splits)

lemma range_opts_Queue_last:
  "range_opts (map Queue (names @ [b])) o' c = (Inr (o'\<lparr>o_Queue := b\<rparr>), c)"
  by (induction names arbitrary: o') (simp_all add: Queue_def)

lemma range_opts_Timeout_last:
  "range_opts (map Timeout (ds @ [d])) o' c = (Inr (o'\<lparr>o_Timeout := d\<rparr>), c)"
  by (induction ds arbitrary: o') (simp_all add: Timeout_def)

subsection \<open>Closing\<close>

lemma Close_nil [simp]: "nc (self s) = None \<Longrightarrow> Close L s = s"
  by (simp add: Close_def)

lemma nc_Close [simp]: "nc (self (Close L s)) = None"
  by (simp add: Close_def)

lemma Close_Close [simp]: "Close L (Close L s) = Close L s"
  by simp

lemma Close_funpow: "(Close L ^^ Suc n) s = Close L s"
  by (induction n) simp_all

subsection \<open>The connection under the other methods\<close>

lemma self_call [simp]: "self (call L c s) = self s"
  by (cases c)
    (simp_all add: Publish_def Subscribe_def Request_def Handle_def Printf_def Let_def
      split: prod.splits sum.splits)

lemma self_fold_call: "self (fold (call L) cs s) = self s"
  by (induction cs arbitrary: s) simp_all

subsection \<open>What the stubs return\<close>

lemma fst_Subscribe:
  "fst (Subscribe L subject opts s) =
     (None, case fst (range_opts opts zero_SubOptions (caller s)) of
              Inl err \<Rightarrow> Some err | Inr so \<Rightarrow> None)"
  by (simp add: Subscribe_def split: prod.splits sum.splits)

lemma fst_Request:
  "fst (Request L subject msg opts s) =
     (None, case fst (range_opts opts zero_ReqOptions (caller s)) of
              Inl err \<Rightarrow> Some err | Inr ro \<Rightarrow> None)"
  by (simp add: Request_def split: prod.splits sum.splits)

section \<open>The claims\<close>

text \<open>
  Claim C5. Each option builder sets its own field of the structure, leaves the other
  field as it was, and returns nil: \<open>Queue name\<close> writes \<open>o_Queue\<close>, \<open>Handler mcb\<close>
  writes \<open>o_Handler\<close>, \<open>Timeout d\<close> writes \<open>o_Timeout\<close>, \<open>Ctx ctx\<close> writes \<open>o_Context\<close>.
  None of them touches a variable of the caller.
\<close>

theorem option_builders_set_their_field:
  "Queue name so c = ((None, so\<lparr>o_Queue := name\<rparr>), c)
   \<and> o_Queue (snd (fst (Queue name so c))) = name
   \<and> o_Handler (snd (fst (Queue name so c))) = o_Handler so
   \<and> Handler mcb so c = ((None, so\<lparr>o_Handler := mcb\<rparr>), c)
   \<and> o_Handler (snd (fst (Handler mcb so c))) = mcb
   \<and> o_Queue (snd (fst (Handler mcb so c))) = o_Queue so
   \<and> Timeout d ro c = ((None, ro\<lparr>o_Timeout := d\<rparr>), c)
   \<and> o_Timeout (snd (fst (Timeout d ro c))) = d
   \<and> o_Context (snd (fst (Timeout d ro c))) = o_Context ro
   \<and> Ctx ctx ro c = ((None, ro\<lparr>o_Context := ctx\<rparr>), c)
   \<and> o_Context (snd (fst (Ctx ctx ro c))) = ctx
   \<and> o_Timeout (snd (fst (Ctx ctx ro c))) = o_Timeout ro"
  by (simp add: Queue_def Handler_def Timeout_def Ctx_def)

text \<open>
  Claim C1. \<^verbatim>\<open>Publish\<close> passes its subject and payload on to the client library's
  publish and adds nothing but the coercion of the payload: a byte slice goes through
  unchanged, a string goes through as its bytes, any other value as the bytes of its
  \<^verbatim>\<open>%+v\<close> formatting. The error \<^verbatim>\<open>Publish\<close> returns is the one that call returned,
  and the only change of state is that call's.
\<close>

theorem Publish_pass_through:
  "Publish_data L (IBytes b) = b
   \<and> Publish_data L (IString v) = Slice (map of_char v)
   \<and> Publish_data L (IOther w) = Slice (map of_char (Sprintf_v L w))
   \<and> fst (Publish L subject msg s) =
       fst (nats_Publish L (nc (self s)) subject (Publish_data L msg) (ext s))
   \<and> snd (Publish L subject msg s) =
       s\<lparr>ext := snd (nats_Publish L (nc (self s)) subject (Publish_data L msg) (ext s)),
         calls := calls s @ [Call_Publish (nc (self s)) subject (Publish_data L msg)]\<rparr>"
  by (simp add: Publish_def Let_def bytes_of_string_def split: prod.splits)

text \<open>
  Claim C2. \<^verbatim>\<open>Request\<close> and \<^verbatim>\<open>Subscribe\<close> apply their options one after the
  other, in argument order, starting from the zero structure: running a list
  \<open>opts1 @ opts2\<close> is running \<open>opts1\<close> and then \<open>opts2\<close> on what \<open>opts1\<close> left. When two
  options set the same field the later one wins: \<open>Queue a\<close> followed by \<open>Queue b\<close> gives
  the structure that \<open>Queue b\<close> alone gives, and likewise for \<open>Handler\<close>, \<open>Timeout\<close> and
  \<open>Ctx\<close>, whatever options come before and after the pair, and so the whole call behaves
  as if the earlier option of the pair had not been passed. A run of \<open>Queue\<close> (or
  \<open>Timeout\<close>) options leaves the name (the duration) of the last one.
\<close>

theorem last_option_wins:
  "range_opts (opts1 @ opts2) o' c =
     (case range_opts opts1 o' c of
        (Inl err, c') \<Rightarrow> (Inl err, c')
      | (Inr o'', c') \<Rightarrow> range_opts opts2 o'' c')
   \<and> range_opts [Queue a, Queue b] zero_SubOptions c = range_opts [Queue b] zero_SubOptions c
   \<and> range_opts [Queue b] zero_SubOptions c = (Inr \<lparr>o_Queue = b, o_Handler = None\<rparr>, c)
   \<and> range_opts [Timeout t1, Timeout t2] zero_ReqOptions c =
       range_opts [Timeout t2] zero_ReqOptions c
   \<and> range_opts [Timeout t2] zero_ReqOptions c = (Inr \<lparr>o_Timeout = t2, o_Context = None\<rparr>, c)
   \<and> range_opts (map Queue (names @ [b])) so c = (Inr (so\<lparr>o_Queue := b\<rparr>), c)
   \<and> range_opts (map Timeout (ds @ [t2])) ro c = (Inr (ro\<lparr>o_Timeout := t2\<rparr>), c)
   \<and> Subscribe L subject (spre @ [Queue a, Queue b] @ spost) s =
       Subscribe L subject (spre @ [Queue b] @ spost) s
   \<and> Subscribe L subject (spre @ [Handler h1, Handler h2] @ spost) s =
       Subscribe L subject (spre @ [Handler h2] @ spost) s
   \<and> Request L subject msg (rpre @ [Timeout t1, Timeout t2] @ rpost) s =
       Request L subject msg (rpre @ [Timeout t2] @ rpost) s
   \<and> Request L subject msg (rpre @ [Ctx c1, Ctx c2] @ rpost) s =
       Request L subject msg (rpre @ [Ctx c2] @ rpost) s
   \<and> Subscribe L subject [Queue a, Queue b] s =
       ((None, None),
        Printf (''opts are '' @ Sprintf_SubOptions L \<lparr>o_Queue = b, o_Handler = None\<rparr> @ ''\<newline>'') s)
   \<and> Request L subject msg [Timeout t1, Timeout t2] s =
       ((None, None),
        Printf (''opts are '' @ Sprintf_ReqOptions L \<lparr>o_Timeout = t2, o_Context = None\<rparr> @ ''\<newline>'') s)"
proof -
  have q: "range_opts [Queue a, Queue b] zero_SubOptions c = range_opts [Queue b] zero_SubOptions c"
    for c :: 'z
    using Queue_twice [of "[]" a b "[]" zero_SubOptions c] by simp
  have t: "range_opts [Timeout t1, Timeout t2] zero_ReqOptions c =
      range_opts [Timeout t2] zero_ReqOptions c" for c :: 'z
    using Timeout_twice [of "[]" t1 t2 "[]" zero_ReqOptions c] by simp
  have q1: "range_opts [Queue b] zero_SubOptions c = (Inr \<lparr>o_Queue = b, o_Handler = None\<rparr>, c)"
    for c :: 'z
    by (simp add: Queue_def zero_SubOptions_def)
  have t1: "range_opts [Timeout t2] zero_ReqOptions c = (Inr \<lparr>o_Timeout = t2, o_Context = None\<rparr>, c)"
    for c :: 'z
    by (simp add: Timeout_def zero_ReqOptions_def)
  have s1: "Subscribe L subject (spre @ [Queue a, Queue b] @ spost) s =
       Subscribe L subject (spre @ [Queue b] @ spost) s"
    unfolding Subscribe_def Queue_twice ..
  have s2: "Subscribe L subject (spre @ [Handler h1, Handler h2] @ spost) s =
       Subscribe L subject (spre @ [Handler h2] @ spost) s"
    unfolding Subscribe_def Handler_twice ..
  have r1: "Request L subject msg (rpre @ [Timeout t1, Timeout t2] @ rpost) s =
       Request L subject msg (rpre @ [Timeout t2] @ rpost) s"
    unfolding Request_def Timeout_twice ..
  have r2: "Request L subject msg (rpre @ [Ctx c1, Ctx c2] @ rpost) s =
       Request L subject msg (rpre @ [Ctx c2] @ rpost) s"
    unfolding Request_def Ctx_twice ..
  have s3: "Subscribe L subject [Queue a, Queue b] s =
       ((None, None),
        Printf (''opts are '' @ Sprintf_SubOptions L \<lparr>o_Queue = b, o_Handler = None\<rparr> @ ''\<newline>'') s)"
    unfolding Subscribe_def q q1 by simp
  have r3: "Request L subject msg [Timeout t1, Timeout t2] s =
       ((None, None),
        Printf (''opts are '' @ Sprintf_ReqOptions L \<lparr>o_Timeout = t2, o_Context = None\<rparr> @ ''\<newline>'') s)"
    unfolding Request_def t t1 by simp
  show ?thesis
    by (intro conjI;
        (rule range_opts_append q q1 t t1 range_opts_Queue_last range_opts_Timeout_last
           s1 s2 r1 r2 s3 r3))
qed

text \<open>
  Claim C3. When some option of a \<^verbatim>\<open>Request\<close> or \<^verbatim>\<open>Subscribe\<close> call fails (the
  options before it having run without error), the call returns a nil result and that
  option's error at once. No option after the failing one is applied: whatever the
  options that follow would do, the caller's variables are as the failing option left
  them. Nothing is applied in part: the connection, the client library and the output
  are what they were before the call, and the structure the options had written to is
  dropped. For options that capture nothing, the state after the call is the state
  before it.
\<close>

theorem failing_option_aborts:
  "(range_opts rpre zero_ReqOptions (caller s) = (Inr ro, c1) \<and> ropt ro c1 = ((Some err, ro'), c2)
      \<longrightarrow> Request L subject msg (rpre @ ropt # rpost) s = ((None, Some err), s\<lparr>caller := c2\<rparr>))
   \<and> (range_opts spre zero_SubOptions (caller s) = (Inr so, d1) \<and> sopt so d1 = ((Some err', so'), d2)
      \<longrightarrow> Subscribe L subject (spre @ sopt # spost) s = ((None, Some err'), s\<lparr>caller := d2\<rparr>))
   \<and> (fst (range_opts (map pure_option rpure) zero_ReqOptions (caller s)) = Inr pro
        \<and> rfail pro = (Some perr, pro')
      \<longrightarrow> Request L subject msg (map pure_option rpure @ pure_option rfail # rpost) s =
          ((None, Some perr), s))
   \<and> (fst (range_opts (map pure_option spure) zero_SubOptions (caller s)) = Inr pso
        \<and> sfail pso = (Some perr', pso')
      \<longrightarrow> Subscribe L subject (map pure_option spure @ pure_option sfail # spost) s =
          ((None, Some perr'), s))"
proof (intro conjI impI; elim conjE)
  assume "range_opts rpre zero_ReqOptions (caller s) = (Inr ro, c1)"
    and "ropt ro c1 = ((Some err, ro'), c2)"
  then have "range_opts (rpre @ ropt # rpost) zero_ReqOptions (caller s) = (Inl err, c2)"
    by (rule range_opts_fails)
  then show "Request L subject msg (rpre @ ropt # rpost) s = ((None, Some err), s\<lparr>caller := c2\<rparr>)"
    by (simp add: Request_def)
next
  assume "range_opts spre zero_SubOptions (caller s) = (Inr so, d1)"
    and "sopt so d1 = ((Some err', so'), d2)"
  then have "range_opts (spre @ sopt # spost) zero_SubOptions (caller s) = (Inl err', d2)"
    by (rule range_opts_fails)
  then show "Subscribe L subject (spre @ sopt # spost) s = ((None, Some err'), s\<lparr>caller := d2\<rparr>)"
    by (simp add: Subscribe_def)
next
  assume "fst (range_opts (map pure_option rpure) zero_ReqOptions (caller s)) = Inr pro"
    and "rfail pro = (Some perr, pro')"
  then have "range_opts (map pure_option rpure @ pure_option rfail # rpost) zero_ReqOptions (caller s)
      = (Inl perr, caller s)"
    by (rule range_opts_pure_fails)
  then show "Request L subject msg (map pure_option rpure @ pure_option rfail # rpost) s =
      ((None, Some perr), s)"
    by (simp add: Request_def)
next
  assume "fst (range_opts (map pure_option spure) zero_SubOptions (caller s)) = Inr pso"
    and "sfail pso = (Some perr', pso')"
  then have "range_opts (map pure_option spure @ pure_option sfail # spost) zero_SubOptions (caller s)
      = (Inl perr', caller s)"
    by (rule range_opts_pure_fails)
  then show "Subscribe L subject (map pure_option spure @ pure_option sfail # spost) s =
      ((None, Some perr'), s)"
    by (simp add: Subscribe_def)
qed

text \<open>
  On the test double: the option before the failing one has counted its call (1), the
  failing option has added ten (11), and the counting option after it was not called, in
  \<^verbatim>\<open>Request\<close> and in \<^verbatim>\<open>Subscribe\<close>; without the failing option the same list counts
  both calls.
\<close>

theorem failing_option_aborts_witness:
  "range_opts [Timeout 5, count_call] zero_ReqOptions (caller init) =
     (Inr (zero_ReqOptions\<lparr>o_Timeout := 5\<rparr>), 1)
   \<and> set_and_fail ''bad option'' (o_Timeout_update (\<lambda>_. 9)) (zero_ReqOptions\<lparr>o_Timeout := 5\<rparr>) 1 =
       ((Some (Error ''bad option''), zero_ReqOptions\<lparr>o_Timeout := 9\<rparr>), 11)
   \<and> Request (fake True) ''service'' (IString ''2+2'')
         ([Timeout 5, count_call] @ set_and_fail ''bad option'' (o_Timeout_update (\<lambda>_. 9))
            # [count_call, Timeout 7]) init
       = ((None, Some (Error ''bad option'')), init\<lparr>caller := 11\<rparr>)
   \<and> caller (snd (Request (fake True) ''service'' (IString ''2+2'')
         ([Timeout 5, count_call] @ [count_call, Timeout 7]) init)) = 2
   \<and> range_opts [Queue ''a'', count_call] zero_SubOptions (caller init) =
       (Inr (zero_SubOptions\<lparr>o_Queue := ''a''\<rparr>), 1)
   \<and> set_and_fail ''no handler'' (o_Queue_update (\<lambda>_. ''z'')) (zero_SubOptions\<lparr>o_Queue := ''a''\<rparr>) 1 =
       ((Some (Error ''no handler''), zero_SubOptions\<lparr>o_Queue := ''z''\<rparr>), 11)
   \<and> Subscribe (fake True) ''foo''
         ([Queue ''a'', count_call] @ set_and_fail ''no handler'' (o_Queue_update (\<lambda>_. ''z''))
            # [count_call, Queue ''b'']) init
       = ((None, Some (Error ''no handler'')), init\<lparr>caller := 11\<rparr>)
   \<and> caller (snd (Subscribe (fake True) ''foo''
         ([Queue ''a'', count_call] @ [count_call, Queue ''b'']) init)) = 2
   \<and> fst (range_opts (map pure_option [\<lambda>p. (None, p\<lparr>o_Timeout := 5\<rparr>)]) zero_ReqOptions (caller init)) =
       Inr (zero_ReqOptions\<lparr>o_Timeout := 5\<rparr>)
   \<and> Request (fake True) ''service'' (IString ''2+2'')
         (map pure_option [\<lambda>p. (None, p\<lparr>o_Timeout := 5\<rparr>)]
            @ pure_option (\<lambda>p. (Some (Error ''bad option''), p\<lparr>o_Timeout := 9\<rparr>))
            # [count_call, Timeout 7]) init
       = ((None, Some (Error ''bad option'')), init)
   \<and> fst (range_opts (map pure_option [\<lambda>p. (None, p\<lparr>o_Queue := ''a''\<rparr>)]) zero_SubOptions (caller init)) =
       Inr (zero_SubOptions\<lparr>o_Queue := ''a''\<rparr>)
   \<and> Subscribe (fake True) ''foo''
         (map pure_option [\<lambda>p. (None, p\<lparr>o_Queue := ''a''\<rparr>)]
            @ pure_option (\<lambda>p. (Some (Error ''no handler''), p\<lparr>o_Queue := ''z''\<rparr>))
            # [count_call, Queue ''b'']) init
       = ((None, Some (Error ''no handler'')), init)"
  using failing_option_aborts [where s = init and L = "fake True" and subject = "''service''"
      and msg = "IString ''2+2''"
      and rpre = "[Timeout 5, count_call]" and ro = "zero_ReqOptions\<lparr>o_Timeout := 5\<rparr>" and ?c1.0 = 1
      and ropt = "set_and_fail ''bad option'' (o_Timeout_update (\<lambda>_. 9))"
      and err = "Error ''bad option''" and ro' = "zero_ReqOptions\<lparr>o_Timeout := 9\<rparr>" and ?c2.0 = 11
      and rpost = "[count_call, Timeout 7]"
      and rpure = "[\<lambda>p. (None, p\<lparr>o_Timeout := 5\<rparr>)]" and pro = "zero_ReqOptions\<lparr>o_Timeout := 5\<rparr>"
      and rfail = "\<lambda>p. (Some (Error ''bad option''), p\<lparr>o_Timeout := 9\<rparr>)"
      and perr = "Error ''bad option''" and pro' = "zero_ReqOptions\<lparr>o_Timeout := 9\<rparr>"
      and spre = "[]" and so = zero_SubOptions and ?d1.0 = 0
      and sopt = "set_and_fail ''no handler'' id" and err' = "Error ''no handler''"
      and so' = zero_SubOptions and ?d2.0 = 10 and spost = "[]"
      and spure = "[]" and pso = zero_SubOptions
      and sfail = "\<lambda>p. (Some (Error ''no handler''), p)" and perr' = "Error ''no handler''"
      and pso' = zero_SubOptions]
    failing_option_aborts [where s = init and L = "fake True" and subject = "''foo''"
      and msg = "IString []"
      and spre = "[Queue ''a'', count_call]" and so = "zero_SubOptions\<lparr>o_Queue := ''a''\<rparr>" and ?d1.0 = 1
      and sopt = "set_and_fail ''no handler'' (o_Queue_update (\<lambda>_. ''z''))"
      and err' = "Error ''no handler''" and so' = "zero_SubOptions\<lparr>o_Queue := ''z''\<rparr>" and ?d2.0 = 11
      and spost = "[count_call, Queue ''b'']"
      and spure = "[\<lambda>p. (None, p\<lparr>o_Queue := ''a''\<rparr>)]" and pso = "zero_SubOptions\<lparr>o_Queue := ''a''\<rparr>"
      and sfail = "\<lambda>p. (Some (Error ''no handler''), p\<lparr>o_Queue := ''z''\<rparr>)"
      and perr' = "Error ''no handler''" and pso' = "zero_SubOptions\<lparr>o_Queue := ''z''\<rparr>"
      and rpre = "[]" and ro = zero_ReqOptions and ?c1.0 = 0
      and ropt = "set_and_fail ''bad option'' id" and err = "Error ''bad option''"
      and ro' = zero_ReqOptions and ?c2.0 = 10 and rpost = "[]"
      and rpure = "[]" and pro = zero_ReqOptions
      and rfail = "\<lambda>p. (Some (Error ''bad option''), p)" and perr = "Error ''bad option''"
      and pro' = zero_ReqOptions]
  by (simp add: Timeout_def Queue_def count_call_def set_and_fail_def pure_option_def init_def
      Request_def Subscribe_def Printf_def)

text \<open>
  Claim C7. \<^verbatim>\<open>Request\<close>, \<^verbatim>\<open>Subscribe\<close> and \<^verbatim>\<open>Handle\<close> are stubs. When every
  option succeeds, \<^verbatim>\<open>Request\<close> returns (nil, nil) and \<^verbatim>\<open>Subscribe\<close> returns
  (nil, nil), having only printed the options (the caller's variables are as the options
  left them); \<^verbatim>\<open>Handle\<close> returns nil and leaves the state as it was, so the handler is
  neither called nor stored.
\<close>

theorem stubs_return_nothing:
  "(range_opts ropts zero_ReqOptions (caller s) = (Inr ro, c)
      \<longrightarrow> Request L subject msg ropts s =
          ((None, None),
           Printf (''opts are '' @ Sprintf_ReqOptions L ro @ ''\<newline>'') (s\<lparr>caller := c\<rparr>)))
   \<and> (range_opts sopts zero_SubOptions (caller s) = (Inr so, d)
      \<longrightarrow> Subscribe L subject sopts s =
          ((None, None),
           Printf (''opts are '' @ Sprintf_SubOptions L so @ ''\<newline>'') (s\<lparr>caller := d\<rparr>)))
   \<and> Handle subject handler s = (None, s)"
  by (simp add: Request_def Subscribe_def Handle_def)

theorem stubs_return_nothing_witness:
  "range_opts [Timeout (2 * Second)] zero_ReqOptions (caller init) =
     (Inr (zero_ReqOptions\<lparr>o_Timeout := 2 * Second\<rparr>), 0)
   \<and> Request (fake True) ''service'' (IString ''2+2'') [Timeout (2 * Second)] init =
       ((None, None), init\<lparr>stdout := [''opts are &{Timeout:2000000000}\<newline>'']\<rparr>)
   \<and> range_opts [Queue ''bar''] zero_SubOptions (caller init) =
       (Inr (zero_SubOptions\<lparr>o_Queue := ''bar''\<rparr>), 0)
   \<and> Subscribe (fake True) ''foo'' [Queue ''bar''] init =
       ((None, None), init\<lparr>stdout := [''opts are &{Queue:bar}\<newline>'']\<rparr>)
   \<and> Handle ''foo'' (Some main_HTTPHandlerFunc) init = (None, init)"
  using stubs_return_nothing [where ropts = "[Timeout (2 * Second)]"
      and ro = "zero_ReqOptions\<lparr>o_Timeout := 2 * Second\<rparr>" and c = 0 and L = "fake True"
      and subject = "''service''" and msg = "IString ''2+2''" and s = init
      and sopts = "[]" and so = zero_SubOptions and d = 0 and handler = None]
    stubs_return_nothing [where sopts = "[Queue ''bar'']"
      and so = "zero_SubOptions\<lparr>o_Queue := ''bar''\<rparr>" and d = 0 and L = "fake True"
      and subject = "''foo''" and handler = "Some main_HTTPHandlerFunc" and s = init
      and ropts = "[]" and ro = zero_ReqOptions and c = 0 and msg = "IString []"]
  by (simp add: Timeout_def Queue_def Printf_def fake_def init_def zero_ReqOptions_def
      zero_SubOptions_def Second_def decimal.simps char_of_def)

text \<open>
  Claim C8. \<^verbatim>\<open>Close\<close> is idempotent and safe on a nil client. On a connection that
  holds a client, the first call closes that client and sets the stored reference to nil;
  on a connection whose reference is nil, \<^verbatim>\<open>Close\<close> does nothing. So every call after
  the first is a no-op: any number of calls leaves the state of one call, and the client's
  close has been invoked exactly once.
\<close>

theorem Close_idempotent:
  "Close L (s\<lparr>self := \<lparr>nc = Some p\<rparr>\<rparr>) =
     s\<lparr>self := \<lparr>nc = None\<rparr>, ext := nats_Close L (Some p) (ext s),
       calls := calls s @ [Call_Close (Some p)]\<rparr>
   \<and> Close L (s\<lparr>self := \<lparr>nc = None\<rparr>\<rparr>) = s\<lparr>self := \<lparr>nc = None\<rparr>\<rparr>
   \<and> nc (self (Close L s)) = None
   \<and> Close L (Close L s) = Close L s
   \<and> (Close L ^^ Suc n) s = Close L s
   \<and> calls ((Close L ^^ Suc n) (s\<lparr>self := \<lparr>nc = Some p\<rparr>\<rparr>)) = calls s @ [Call_Close (Some p)]"
proof -
  have first: "Close L (s\<lparr>self := \<lparr>nc = Some p\<rparr>\<rparr>) =
     s\<lparr>self := \<lparr>nc = None\<rparr>, ext := nats_Close L (Some p) (ext s),
       calls := calls s @ [Call_Close (Some p)]\<rparr>"
    by (simp add: Close_def)
  have nil: "Close L (s\<lparr>self := \<lparr>nc = None\<rparr>\<rparr>) = s\<lparr>self := \<lparr>nc = None\<rparr>\<rparr>"
    by simp
  have once: "calls ((Close L ^^ Suc n) (s\<lparr>self := \<lparr>nc = Some p\<rparr>\<rparr>)) = calls s @ [Call_Close (Some p)]"
    unfolding Close_funpow first by simp
  show ?thesis
    by (intro conjI; (rule first nil nc_Close Close_Close Close_funpow once))
qed

text \<open>
  Claim C9. \<^verbatim>\<open>JSON\<close> returns the byte slice of \<^verbatim>\<open>json.Marshal\<close> and drops its
  error: when the value cannot be marshaled the result is the nil slice, and nothing
  tells the caller; when it can, the result is the encoding.
\<close>

theorem JSON_discards_error:
  "JSON L v = fst (json_Marshal L v)
   \<and> (json_Marshal L v = (NilSlice, Some err) \<longrightarrow> JSON L v = NilSlice)
   \<and> (json_encode L v = Inl err \<longrightarrow> json_Marshal L v = (NilSlice, Some err) \<and> JSON L v = NilSlice)
   \<and> (json_encode L v = Inr buf \<longrightarrow> json_Marshal L v = (Slice buf, None) \<and> JSON L v = Slice buf)"
  by (simp add: JSON_def json_Marshal_def split: prod.splits sum.splits)

theorem JSON_discards_error_witness:
  "json_encode (fake True) (IOther (Go_chan 7)) = Inl (Error ''json: unsupported type: chan int'')
   \<and> json_Marshal (fake True) (IOther (Go_chan 7)) =
       (NilSlice, Some (Error ''json: unsupported type: chan int''))
   \<and> JSON (fake True) (IOther (Go_chan 7)) = NilSlice
   \<and> json_encode (fake True) (IString ''2+2'') = Inr [34, 50, 43, 50, 34]
   \<and> JSON (fake True) (IString ''2+2'') = Slice [34, 50, 43, 50, 34]"
  using JSON_discards_error [where L = "fake True" and v = "IOther (Go_chan 7)"
      and err = "Error ''json: unsupported type: chan int''" and buf = "[]"]
    JSON_discards_error [where L = "fake True" and v = "IString ''2+2''"
      and err = "Error []" and buf = "[34, 50, 43, 50, 34]"]
  by (simp add: fake_def)

text \<open>
  Claim C10. Only \<^verbatim>\<open>Close\<close> changes the connection. After any sequence of
  \<^verbatim>\<open>Publish\<close>, \<^verbatim>\<open>Subscribe\<close>, \<^verbatim>\<open>Request\<close> and \<^verbatim>\<open>Handle\<close> calls the
  connection, and with it the stored client reference, is what it was, whereas
  \<^verbatim>\<open>Close\<close> on a connection that holds a client changes it. What \<^verbatim>\<open>Subscribe\<close>,
  \<^verbatim>\<open>Request\<close> and \<^verbatim>\<open>Handle\<close> return does not depend on the calls made before:
  it depends on nothing in the state but the variables the options themselves captured,
  and on nothing at all when the options capture nothing. The options a call prints are
  built from the zero structure and its own option list alone.
\<close>

theorem only_Close_mutates_conn:
  "self (fold (call L) cs s) = self s
   \<and> nc (self (fold (call L) cs s)) = nc (self s)
   \<and> self (Close L (s\<lparr>self := \<lparr>nc = Some p\<rparr>\<rparr>)) \<noteq> self (s\<lparr>self := \<lparr>nc = Some p\<rparr>\<rparr>)
   \<and> fst (Subscribe L subject sopts (fold (call L) cs s)) =
       fst (Subscribe L subject sopts (s'\<lparr>caller := caller (fold (call L) cs s)\<rparr>))
   \<and> fst (Request L subject msg ropts (fold (call L) cs s)) =
       fst (Request L subject msg ropts (s'\<lparr>caller := caller (fold (call L) cs s)\<rparr>))
   \<and> fst (Subscribe L subject (map pure_option spure) (fold (call L) cs s)) =
       fst (Subscribe L subject (map pure_option spure) s')
   \<and> fst (Request L subject msg (map pure_option rpure) (fold (call L) cs s)) =
       fst (Request L subject msg (map pure_option rpure) s')
   \<and> fst (Handle subject handler (fold (call L) cs s)) = fst (Handle subject handler s')
   \<and> stdout (snd (Subscribe L subject sopts s)) =
       stdout s @ (case fst (range_opts sopts zero_SubOptions (caller s)) of
                     Inl err \<Rightarrow> []
                   | Inr so \<Rightarrow> [''opts are '' @ Sprintf_SubOptions L so @ ''\<newline>''])
   \<and> stdout (snd (Request L subject msg ropts s)) =
       stdout s @ (case fst (range_opts ropts zero_ReqOptions (caller s)) of
                     Inl err \<Rightarrow> []
                   | Inr ro \<Rightarrow> [''opts are '' @ Sprintf_ReqOptions L ro @ ''\<newline>''])"
proof -
  have close: "self (Close L (s\<lparr>self := \<lparr>nc = Some p\<rparr>\<rparr>)) \<noteq> self (s\<lparr>self := \<lparr>nc = Some p\<rparr>\<rparr>)"
    by (simp add: Close_def)
  have sub: "fst (Subscribe L subject sopts t) = fst (Subscribe L subject sopts (s'\<lparr>caller := caller t\<rparr>))"
    for t :: "('a, 'b) state"
    by (simp add: Subscribe_def split: prod.splits sum.splits)
  have req: "fst (Request L subject msg ropts t) = fst (Request L subject msg ropts (s'\<lparr>caller := caller t\<rparr>))"
    for t :: "('a, 'b) state"
    by (simp add: Request_def split: prod.splits sum.splits)
  have psub: "fst (Subscribe L subject (map pure_option spure) t) =
      fst (Subscribe L subject (map pure_option spure) s')" for t :: "('a, 'b) state"
    unfolding fst_Subscribe
    using range_opts_pure_fst [of spure zero_SubOptions "caller t" "caller s'"] by simp
  have preq: "fst (Request L subject msg (map pure_option rpure) t) =
      fst (Request L subject msg (map pure_option rpure) s')" for t :: "('a, 'b) state"
    unfolding fst_Request
    using range_opts_pure_fst [of rpure zero_ReqOptions "caller t" "caller s'"] by simp
  have han: "fst (Handle subject handler (fold (call L) cs s)) = fst (Handle subject handler s')"
    by (simp add: Handle_def)
  have outs: "stdout (snd (Subscribe L subject sopts s)) =
       stdout s @ (case fst (range_opts sopts zero_SubOptions (caller s)) of
                     Inl err \<Rightarrow> []
                   | Inr so \<Rightarrow> [''opts are '' @ Sprintf_SubOptions L so @ ''\<newline>''])"
    by (simp add: Subscribe_def Printf_def split: prod.splits sum.splits)
  have outr: "stdout (snd (Request L subject msg ropts s)) =
       stdout s @ (case fst (range_opts ropts zero_ReqOptions (caller s)) of
                     Inl err \<Rightarrow> []
                   | Inr ro \<Rightarrow> [''opts are '' @ Sprintf_ReqOptions L ro @ ''\<newline>''])"
    by (simp add: Request_def Printf_def split: prod.splits sum.splits)
  have frame: "nc (self (fold (call L) cs s)) = nc (self s)"
    by (simp add: self_fold_call)
  show ?thesis
    by (intro conjI; (rule self_fold_call frame close sub req psub preq han outs outr))
qed

text \<open>
  Claim C6. When the client library's connect fails, \<^verbatim>\<open>Connect\<close> returns a nil
  connection and that error. In \<^verbatim>\<open>main\<close> the failure is fatal: the error is logged,
  the process exits with status 1, and nothing else runs (the connect is the only call
  that reached the client library, and nothing was printed).
\<close>

theorem Connect_failure_is_fatal:
  "(nats_Connect L url opts (ext s) = ((p, Some err), x)
      \<longrightarrow> Connect L url opts s =
          ((None, Some err), s\<lparr>ext := x, calls := calls s @ [Call_Connect url opts]\<rparr>))
   \<and> (nats_Connect L ''demo.nats.io'' [] (ext s) = ((p', Some err'), x')
      \<longrightarrow> main L s =
          s\<lparr>ext := x', calls := calls s @ [Call_Connect ''demo.nats.io'' []],
            logged := logged s @ [''Could not connect: '' @ Error_msg err' @ ''\<newline>''],
            halted := Some (Exit 1)\<rparr>)"
  by (simp add: main_def Connect_def log_Fatalf_def)

theorem Connect_failure_is_fatal_witness:
  "nats_Connect (fake False) ''demo.nats.io'' [] (ext init) =
     ((None, Some (Error ''nats: no servers available for connection'')), 0)
   \<and> Connect (fake False) ''demo.nats.io'' [] init =
       ((None, Some (Error ''nats: no servers available for connection'')),
        init\<lparr>calls := [Call_Connect ''demo.nats.io'' []]\<rparr>)
   \<and> main (fake False) init =
       init\<lparr>calls := [Call_Connect ''demo.nats.io'' []],
            logged := [''Could not connect: nats: no servers available for connection\<newline>''],
            halted := Some (Exit 1)\<rparr>"
  using Connect_failure_is_fatal [where L = "fake False" and url = "''demo.nats.io''"
      and opts = "[]" and s = init and p = None and p' = None and x = 0 and x' = 0
      and err = "Error ''nats: no servers available for connection''"
      and err' = "Error ''nats: no servers available for connection''"]
  by (simp add: fake_def init_def)

end
